theory Spec2Isabelle
  imports Main
begin

section \<open>The syntax tree seen by the completion code\<close>

text \<open>
  The grammar package exports one numeric term id per node kind, and the tree library
  reserves the id \<open>0\<close> for its error term. The ids are pairwise distinct, so a node kind
  is a constructor here: \<open>ErrorTerm\<close> is the id \<open>0\<close> of the source, the named constructors
  are the ids that \<open>HybridComplete\<close> imports, and \<open>OtherTerm\<close> is any other node kind of
  the grammar.
\<close>

datatype node_type =
    ErrorTerm
  | AggregateOp
  | BinaryExpr
  | FunctionIdentifier
  | GroupingLabel
  | GroupingLabels
  | Identifier
  | LabelMatcher
  | LabelMatchers
  | LabelName
  | MetricIdentifier
  | StringLiteral
  | VectorSelector
  | MatchOp
  | OtherTerm nat

text \<open>
  A parsed node: its kind, its \<open>start\<close> and \<open>end\<close> offsets, and its child nodes in
  document order.
\<close>

datatype SyntaxNode =
  SyntaxNode (node_type: node_type) (node_start: int) (node_end: int)
    (children: "SyntaxNode list")

text \<open>
  A \<open>Subtree\<close> is a position in the tree: the node in focus together with its ancestors,
  nearest first. The read-only accessors \<open>type.id\<close>, \<open>start\<close>, \<open>end\<close>, \<open>parent\<close>,
  \<open>firstChild\<close> and \<open>lastChild\<close> of the source are computed from it; an absent parent or
  child (\<open>null\<close>) is \<open>None\<close>.
\<close>

datatype Subtree = Subtree (focus: SyntaxNode) (ancestors: "SyntaxNode list")

definition type_id :: "Subtree \<Rightarrow> node_type" where
  "type_id t = node_type (focus t)"

definition start :: "Subtree \<Rightarrow> int" where
  "start t = node_start (focus t)"

definition end_pos :: "Subtree \<Rightarrow> int" where
  "end_pos t = node_end (focus t)"

definition parent :: "Subtree \<Rightarrow> Subtree option" where
  "parent t = (case ancestors t of [] \<Rightarrow> None | p # ps \<Rightarrow> Some (Subtree p ps))"

definition firstChild :: "Subtree \<Rightarrow> Subtree option" where
  "firstChild t =
     (case children (focus t) of
        [] \<Rightarrow> None
      | c # cs \<Rightarrow> Some (Subtree c (focus t # ancestors t)))"

definition lastChild :: "Subtree \<Rightarrow> Subtree option" where
  "lastChild t =
     (case children (focus t) of
        [] \<Rightarrow> None
      | c # cs \<Rightarrow> Some (Subtree (last (c # cs)) (focus t # ancestors t)))"

text \<open>
  \<open>t.parent?.type.id\<close>: the kind of the parent, \<open>None\<close> (the source's \<open>undefined\<close>) when
  there is no parent. A comparison \<open>=== X\<close> with \<open>undefined\<close> is false, a comparison
  \<open>!== X\<close> is true.
\<close>

definition parent_type :: "Subtree \<Rightarrow> node_type option" where
  "parent_type t = map_option type_id (parent t)"

text \<open>\<open>t.parent?.parent?.parent?.parent\<close>.\<close>

definition fourth_ancestor :: "Subtree \<Rightarrow> Subtree option" where
  "fourth_ancestor t =
     Option.bind (Option.bind (Option.bind (parent t) parent) parent) parent"

section \<open>Promises\<close>

text \<open>
  A promise is modelled by the way it settles: it resolves with a value or it is rejected
  with a fault. \<open>p.then(f)\<close> resolves with \<open>f\<close> of the value and passes a rejection on
  unchanged; no code of the two classes attaches a rejection handler.
\<close>

datatype fault = NetworkError | HttpStatus nat | MalformedPayload

datatype 'a promise = Resolved 'a | Rejected fault

definition promise_then :: "'a promise \<Rightarrow> ('a \<Rightarrow> 'b) \<Rightarrow> 'b promise" where
  "promise_then p f = (case p of Resolved x \<Rightarrow> Resolved (f x) | Rejected e \<Rightarrow> Rejected e)"

section \<open>Completions, editor state and the collaborators of the resolver\<close>

text \<open>
  The \<open>apply\<close> field of a completion is either the text to insert or the function that
  \<open>snippet(template)\<close> builds from a template.
\<close>

datatype apply_spec = ApplyText string | ApplySnippet string

record Completion =
  label :: string
  original :: "string option"
  apply_field :: "apply_spec option"
  type_field :: "string option"
  score :: "int option"

record CompletionResult =
  from_pos :: int
  to_pos :: int
  options :: "Completion list"
  filterDownOn :: "string option"

record Line =
  line_from :: int
  line_number :: int

text \<open>
  The editor state is the host's: the resolver only calls \<open>state.tree.resolve\<close>,
  \<open>state.sliceDoc\<close>, \<open>state.doc.lineAt\<close> and \<open>state.doc.sliceString\<close>, which are fields
  here.
\<close>

record EditorState =
  tree_resolve :: "int \<Rightarrow> int \<Rightarrow> Subtree"
  sliceDoc :: "int \<Rightarrow> int \<Rightarrow> string"
  doc_lineAt :: "int \<Rightarrow> Line"
  doc_sliceString :: "int \<Rightarrow> string"

text \<open>
  The completion context: the state, the cursor offset, and the host's filter, which
  returns \<open>null\<close> (\<open>None\<close>) for a candidate that does not match the typed text.
\<close>

record AutocompleteContext =
  state :: EditorState
  pos :: int
  filter_field :: "Completion \<Rightarrow> string \<Rightarrow> Completion option"

text \<open>
  The metadata client: \<open>labelNames(metricName?)\<close> and \<open>labelValues(labelName,
  metricName?)\<close>, each returning a promise of strings.
\<close>

record PrometheusClient =
  labelNames :: "string option \<Rightarrow> string list promise"
  labelValues :: "string \<Rightarrow> string option \<Rightarrow> string list promise"

record HybridComplete =
  prometheusClient :: "PrometheusClient option"

text \<open>
  The term lists of \<open>promql.terms\<close> and the two functions of \<open>path-finder\<close> are imported
  by the source from modules outside it; they are parameters of the model.
\<close>

record promql_terms =
  matchOpTerms :: "string list"
  binOpTerms :: "string list"
  binOpModifierTerms :: "string list"
  functionIdentifierTerms :: "string list"
  aggregateOpTerms :: "string list"
  aggregateOpModifierTerms :: "string list"

record path_finder =
  walkBackward :: "Subtree \<Rightarrow> node_type \<Rightarrow> Subtree option"
  walkThrough :: "Subtree \<Rightarrow> node_type list \<Rightarrow> Subtree option"

record AutoCompleteNode =
  labels :: "string list"
  type_name :: string

text \<open>The table \<open>autocompleteNode\<close>, one definition per key.\<close>

definition autocompleteNode_matchOp :: "promql_terms \<Rightarrow> AutoCompleteNode" where
  "autocompleteNode_matchOp T = \<lparr>labels = matchOpTerms T, type_name = ''''\<rparr>"

definition autocompleteNode_binOp :: "promql_terms \<Rightarrow> AutoCompleteNode" where
  "autocompleteNode_binOp T = \<lparr>labels = binOpTerms T, type_name = ''''\<rparr>"

definition autocompleteNode_binOpModifier :: "promql_terms \<Rightarrow> AutoCompleteNode" where
  "autocompleteNode_binOpModifier T =
     \<lparr>labels = binOpModifierTerms T, type_name = ''keyword''\<rparr>"

definition autocompleteNode_functionIdentifier :: "promql_terms \<Rightarrow> AutoCompleteNode" where
  "autocompleteNode_functionIdentifier T =
     \<lparr>labels = functionIdentifierTerms T, type_name = ''function''\<rparr>"

definition autocompleteNode_aggregateOp :: "promql_terms \<Rightarrow> AutoCompleteNode" where
  "autocompleteNode_aggregateOp T = \<lparr>labels = aggregateOpTerms T, type_name = ''keyword''\<rparr>"

definition autocompleteNode_aggregateOpModifier :: "promql_terms \<Rightarrow> AutoCompleteNode" where
  "autocompleteNode_aggregateOpModifier T =
     \<lparr>labels = aggregateOpModifierTerms T, type_name = ''keyword''\<rparr>"

section \<open>Snippets\<close>

record SnippetSpec =
  name :: "string option"
  keyword :: string
  snippet :: string

definition snippets :: "SnippetSpec list" where
  \<open>snippets =
    [\<lparr>name = None,
      keyword = ''sum(rate(__input_vector__[5m]))'',
      snippet = ''sum(rate(${__input_vector__}[5m]))''\<rparr>,
     \<lparr>name = None,
      keyword = ''histogram_quantile(__quantile__, sum by(le) (rate(__histogram_metric__[5m])))'',
      snippet = ''histogram_quantile(${__quantile__}, sum by(le) (rate(${__histogram_metric__}[5m])))''\<rparr>,
     \<lparr>name = None,
      keyword = ''label_replace(__input_vector__, "__dst__", "__replacement__", "__src__", "__regex__")'',
      snippet = ''label_replace(${__input_vector__}, "${__dst__}", "${__replacement__}", "${__src__}", "${__regex__}")''\<rparr>]\<close>

text \<open>\<open>s.name || s.keyword\<close>: the name unless it is absent or the empty string.\<close>

definition name_or_keyword :: "SnippetSpec \<Rightarrow> string" where
  "name_or_keyword s =
     (case name s of None \<Rightarrow> keyword s | Some n \<Rightarrow> if n = [] then keyword s else n)"

definition parsedSnippets :: "Completion list" where
  "parsedSnippets =
     map (\<lambda>s. \<lparr>label = name_or_keyword s, original = Some (name_or_keyword s),
               apply_field = Some (ApplySnippet (snippet s)), type_field = None,
               score = Some 0\<rparr>) snippets"

section \<open>Result assembly\<close>

text \<open>
  The candidate that \<open>arrayToCompletionResult\<close> builds for one label of a list:
  \<open>{label, original: label, apply: label, type, score: 0}\<close>.
\<close>

definition candidate :: "string \<Rightarrow> string \<Rightarrow> Completion" where
  "candidate ty l =
     \<lparr>label = l, original = Some l, apply_field = Some (ApplyText l),
      type_field = Some ty, score = Some 0\<rparr>"

text \<open>
  The inner loop over the labels of one list, the outer loop over the lists, and the loop
  over the parsed snippets: each candidate goes through \<open>context.filter\<close> with the typed
  text, and is pushed unless the filter returned \<open>null\<close>.
\<close>

fun push_labels ::
  "AutocompleteContext \<Rightarrow> string \<Rightarrow> string \<Rightarrow> string list \<Rightarrow> Completion list
     \<Rightarrow> Completion list" where
  "push_labels context text ty [] opts = opts"
| "push_labels context text ty (l # ls) opts =
     (case filter_field context (candidate ty l) text of
        None \<Rightarrow> push_labels context text ty ls opts
      | Some completionResult \<Rightarrow> push_labels context text ty ls (opts @ [completionResult]))"

fun push_lists ::
  "AutocompleteContext \<Rightarrow> string \<Rightarrow> AutoCompleteNode list \<Rightarrow> Completion list
     \<Rightarrow> Completion list" where
  "push_lists context text [] opts = opts"
| "push_lists context text (completionList # data) opts =
     push_lists context text data
       (push_labels context text (type_name completionList) (labels completionList) opts)"

fun push_snippets ::
  "AutocompleteContext \<Rightarrow> string \<Rightarrow> Completion list \<Rightarrow> Completion list
     \<Rightarrow> Completion list" where
  "push_snippets context text [] opts = opts"
| "push_snippets context text (s # ss) opts =
     (case filter_field context s text of
        None \<Rightarrow> push_snippets context text ss opts
      | Some completionResult \<Rightarrow> push_snippets context text ss (opts @ [completionResult]))"

definition arrayToCompletionResult ::
  "AutoCompleteNode list \<Rightarrow> int \<Rightarrow> int \<Rightarrow> AutocompleteContext \<Rightarrow> EditorState \<Rightarrow> bool
     \<Rightarrow> CompletionResult" where
  "arrayToCompletionResult data from to context st includeSnippet =
     (let text = sliceDoc st from to;
          opts = push_lists context text data [];
          opts = (if includeSnippet then push_snippets context text parsedSnippets opts
                  else opts)
      in \<lparr>from_pos = from, to_pos = to, options = opts,
          filterDownOn = Some ''^[a-zA-Z0-9_:]+$''\<rparr>)"

section \<open>The hybrid resolver\<close>

text \<open>
  What \<open>promQL\<close> returns: \<open>null\<close>, a completion result, or a promise of one.
\<close>

datatype completion_outcome =
    NoCompletion
  | Sync CompletionResult
  | Deferred "CompletionResult promise"

definition of_nullable :: "CompletionResult promise option \<Rightarrow> completion_outcome" where
  "of_nullable r = (case r of None \<Rightarrow> NoCompletion | Some p \<Rightarrow> Deferred p)"

definition getMetricNameInVectorSelector ::
  "path_finder \<Rightarrow> Subtree \<Rightarrow> EditorState \<Rightarrow> string" where
  "getMetricNameInVectorSelector P tree st =
     (case walkBackward P tree VectorSelector of
        None \<Rightarrow> ''''
      | Some currentNode \<Rightarrow>
          (case walkThrough P currentNode [MetricIdentifier, Identifier] of
             None \<Rightarrow> ''''
           | Some currentNode \<Rightarrow> sliceDoc st (start currentNode) (end_pos currentNode)))"

definition HybridComplete_labelNames ::
  "HybridComplete \<Rightarrow> Subtree \<Rightarrow> int \<Rightarrow> AutocompleteContext \<Rightarrow> EditorState
     \<Rightarrow> string option \<Rightarrow> CompletionResult promise option" where
  "HybridComplete_labelNames this tree p context st metricName =
     (case prometheusClient this of
        None \<Rightarrow> None
      | Some client \<Rightarrow>
          Some (promise_then (labelNames client metricName)
            (\<lambda>names. arrayToCompletionResult
               [\<lparr>labels = names, type_name = ''constant''\<rparr>]
               (if type_id tree = GroupingLabels \<or> type_id tree = LabelMatchers
                then start tree + 1 else start tree)
               p context st False)))"

definition autocompleteLabelNamesByMetric ::
  "path_finder \<Rightarrow> HybridComplete \<Rightarrow> Subtree \<Rightarrow> int \<Rightarrow> AutocompleteContext \<Rightarrow> EditorState
     \<Rightarrow> CompletionResult promise option" where
  "autocompleteLabelNamesByMetric P this tree p context st =
     HybridComplete_labelNames this tree p context st
       (Some (getMetricNameInVectorSelector P tree st))"

definition autocompleteLabelValue ::
  "path_finder \<Rightarrow> HybridComplete \<Rightarrow> Subtree \<Rightarrow> Subtree \<Rightarrow> int \<Rightarrow> AutocompleteContext
     \<Rightarrow> EditorState \<Rightarrow> CompletionResult promise option" where
  "autocompleteLabelValue P this par current p context st =
     (case prometheusClient this of
        None \<Rightarrow> None
      | Some client \<Rightarrow>
          (let labelName =
                 (case firstChild par of
                    None \<Rightarrow> ''''
                  | Some fc \<Rightarrow>
                      if type_id fc = LabelName then sliceDoc st (start fc) (end_pos fc)
                      else '''');
               metricName = getMetricNameInVectorSelector P current st
           in Some (promise_then (labelValues client labelName (Some metricName))
                (\<lambda>vals. arrayToCompletionResult
                   [\<lparr>labels = vals, type_name = ''text''\<rparr>]
                   (start current + 1) p context st False))))"

text \<open>
  The local \<open>nonMetricCompletions\<close> of the first branch of \<open>promQL\<close>: three lists, and
  the binary-operator modifiers when \<open>tree.parent?.parent?.parent?.parent?.type.id\<close> is
  \<open>BinaryExpr\<close>.
\<close>

definition nonMetricCompletions :: "promql_terms \<Rightarrow> Subtree \<Rightarrow> AutoCompleteNode list" where
  "nonMetricCompletions T tree =
     (let nonMetric =
            [autocompleteNode_functionIdentifier T, autocompleteNode_aggregateOp T,
             autocompleteNode_binOp T]
      in if map_option type_id (fourth_ancestor tree) = Some BinaryExpr
         then nonMetric @ [autocompleteNode_binOpModifier T]
         else nonMetric)"

text \<open>
  \<open>promQL\<close>: the node is resolved at the cursor with side \<open>-1\<close>, and the first condition
  that holds decides the result. In the fourth and fifth branch the condition itself
  makes \<open>tree.parent\<close> and \<open>tree.lastChild\<close> present.
\<close>

definition promQL ::
  "promql_terms \<Rightarrow> path_finder \<Rightarrow> HybridComplete \<Rightarrow> AutocompleteContext
     \<Rightarrow> completion_outcome" where
  "promQL T P this context =
     (let st = state context; p = pos context; tree = tree_resolve st p (- 1) in
      if parent_type tree = Some MetricIdentifier \<and> type_id tree = Identifier then
        (case prometheusClient this of
           Some client \<Rightarrow>
             Deferred (promise_then (labelValues client ''__name__'' None)
               (\<lambda>metricNames. arrayToCompletionResult
                  (\<lparr>labels = metricNames, type_name = ''constant''\<rparr>
                     # nonMetricCompletions T tree)
                  (start tree) p context st True))
         | None \<Rightarrow>
             Sync (arrayToCompletionResult (nonMetricCompletions T tree) (start tree) p
                     context st True))
      else if type_id tree = GroupingLabels
           \<or> (parent_type tree = Some GroupingLabel \<and> type_id tree = LabelName) then
        of_nullable (HybridComplete_labelNames this tree p context st None)
      else if type_id tree = LabelMatchers
           \<or> (parent_type tree = Some LabelMatcher \<and> type_id tree = LabelName) then
        of_nullable (autocompleteLabelNamesByMetric P this tree p context st)
      else if parent_type tree = Some LabelMatcher \<and> type_id tree = StringLiteral then
        of_nullable (autocompleteLabelValue P this (the (parent tree)) tree p context st)
      else if type_id tree = LabelMatcher
           \<and> map_option type_id (firstChild tree) = Some LabelName
           \<and> map_option type_id (lastChild tree) = Some ErrorTerm
           \<and> Option.bind (lastChild tree) firstChild = None then
        Sync (arrayToCompletionResult [autocompleteNode_matchOp T]
                (start (the (lastChild tree))) p context st False)
      else if type_id tree = MatchOp \<or> parent_type tree = Some MatchOp then
        Sync (arrayToCompletionResult [autocompleteNode_matchOp T] (start tree) p
                context st False)
      else if parent_type tree = Some BinaryExpr then
        Sync (arrayToCompletionResult [autocompleteNode_binOp T] (start tree) p
                context st False)
      else if parent_type tree = Some FunctionIdentifier then
        Sync (arrayToCompletionResult [autocompleteNode_functionIdentifier T] (start tree) p
                context st False)
      else if parent_type tree = Some AggregateOp then
        Sync (arrayToCompletionResult [autocompleteNode_aggregateOp T] (start tree) p
                context st False)
      else if (type_id tree = Identifier \<and> parent_type tree = Some ErrorTerm)
           \<or> (type_id tree = ErrorTerm \<and> parent_type tree \<noteq> Some LabelMatchers) then
        Sync (arrayToCompletionResult
                [autocompleteNode_aggregateOpModifier T, autocompleteNode_binOp T]
                (start tree) p context st False)
      else NoCompletion)"

section \<open>The language-server client\<close>

record Position =
  line :: int
  character :: int

record Range =
  range_start :: Position
  range_end :: Position

record TextEdit =
  range :: Range
  newText :: string

record AutocompleteResponse =
  res_label :: string
  textEdit :: "TextEdit option"

record CompletionBody =
  expr :: string
  limit :: int
  positionChar :: int
  positionLine :: int

text \<open>
  \<open>response.data\<close>: the array of the server's answers, or a value that \<open>isIterable\<close>
  rejects.
\<close>

datatype response_data = Items "AutocompleteResponse list" | NotIterable

record LSPClient =
  url :: string

definition autocompleteEndpoint :: string where
  "autocompleteEndpoint = ''/completion''"

text \<open>The local \<open>body\<close> of \<open>autocomplete\<close>, the request that is posted.\<close>

definition request_body :: "AutocompleteContext \<Rightarrow> CompletionBody" where
  "request_body context =
     (let st = state context; p = pos context; ln = doc_lineAt st p in
      \<lparr>expr = doc_sliceString st 0,
       limit = 100,
       positionChar =
         (if p - line_from ln - 1 > 0 then p - line_from ln - 1 else p - line_from ln),
       positionLine = line_number ln - 1\<rparr>)"

text \<open>A completion of the language-server client carries a label only.\<close>

definition label_only :: "string \<Rightarrow> Completion" where
  "label_only l =
     \<lparr>label = l, original = None, apply_field = None, type_field = None, score = None\<rparr>"

text \<open>
  The loop over \<open>response.data\<close>: the label is the answer's, or the \<open>newText\<close> of its text
  edit when it has one, and the last text edit seen is kept.
\<close>

fun collect_responses ::
  "AutocompleteResponse list \<Rightarrow> Completion list \<times> TextEdit option
     \<Rightarrow> Completion list \<times> TextEdit option" where
  "collect_responses [] acc = acc"
| "collect_responses (res # rest) (opts, te) =
     (case textEdit res of
        Some e \<Rightarrow> collect_responses rest (opts @ [label_only (newText e)], Some e)
      | None \<Rightarrow> collect_responses rest (opts @ [label_only (res_label res)], te))"

text \<open>
  \<open>autocomplete\<close>; \<open>post\<close> stands for \<open>axios.post\<close> and gives the promise of
  \<open>response.data\<close> for a URL and a body.
\<close>

definition autocomplete ::
  "(string \<Rightarrow> CompletionBody \<Rightarrow> response_data promise) \<Rightarrow> LSPClient \<Rightarrow> AutocompleteContext
     \<Rightarrow> CompletionResult promise" where
  "autocomplete post this context =
     (let st = state context; p = pos context; ln = doc_lineAt st p;
          body = request_body context
      in promise_then (post (url this @ autocompleteEndpoint) body)
           (\<lambda>data.
              let (opts, te) =
                    (case data of
                       Items rs \<Rightarrow> collect_responses rs ([], None)
                     | NotIterable \<Rightarrow> ([], None))
              in \<lparr>from_pos =
                    (case te of
                       Some e \<Rightarrow> line_from ln + character (range_start (range e))
                     | None \<Rightarrow> line_from ln),
                  to_pos = p, options = opts, filterDownOn = None\<rparr>))"

section \<open>Parts of the repository outside the two source files\<close>

text \<open>
  Modelled from the spec: the tree navigator \<open>walkBackward\<close> of the module
  \<open>parser/path-finder\<close>, which is not among the source files. Section 4.1: ascend through
  the parent links until a node of the target kind is found or the root is reached;
  "not found" is \<open>None\<close>. The ascent over the focus and its ancestors:
\<close>

fun walkBackward_from :: "SyntaxNode \<Rightarrow> SyntaxNode list \<Rightarrow> node_type \<Rightarrow> Subtree option" where
  "walkBackward_from n [] exit =
     (if node_type n = exit then Some (Subtree n []) else None)"
| "walkBackward_from n (p # ps) exit =
     (if node_type n = exit then Some (Subtree n (p # ps)) else walkBackward_from p ps exit)"

text \<open>
  Modelled from the spec: \<open>walkBackward(node, targetTypeId)\<close> itself, the ascent started
  at the node.
\<close>

definition walkBackward_spec :: "Subtree \<Rightarrow> node_type \<Rightarrow> Subtree option" where
  "walkBackward_spec t exit = walkBackward_from (focus t) (ancestors t) exit"

text \<open>
  Modelled from the spec: the tree navigator \<open>walkThrough\<close> of the same module, which is
  not among the source files. Section 4.1: descend from a node through a chain of expected
  child kinds; the final node, or "not found" when a link of the chain has no child of
  that kind.
\<close>

fun walkThrough_spec :: "Subtree \<Rightarrow> node_type list \<Rightarrow> Subtree option" where
  "walkThrough_spec t [] = Some t"
| "walkThrough_spec t (ty # path) =
     (case find (\<lambda>c. node_type c = ty) (children (focus t)) of
        None \<Rightarrow> None
      | Some c \<Rightarrow> walkThrough_spec (Subtree c (focus t # ancestors t)) path)"

text \<open>
  Modelled from the spec: the module \<open>parser/path-finder\<close> as a whole, the two navigators
  above.
\<close>

definition pathFinder :: path_finder where
  "pathFinder = \<lparr>walkBackward = walkBackward_spec, walkThrough = walkThrough_spec\<rparr>"

section \<open>Vocabulary of the statements\<close>

text \<open>The conditions of the first four branches of \<open>promQL\<close>, as the source writes them.\<close>

definition in_metric_identifier :: "Subtree \<Rightarrow> bool" where
  "in_metric_identifier tree \<longleftrightarrow>
     parent_type tree = Some MetricIdentifier \<and> type_id tree = Identifier"

definition in_grouping_labels :: "Subtree \<Rightarrow> bool" where
  "in_grouping_labels tree \<longleftrightarrow>
     type_id tree = GroupingLabels
     \<or> (parent_type tree = Some GroupingLabel \<and> type_id tree = LabelName)"

definition in_label_matchers :: "Subtree \<Rightarrow> bool" where
  "in_label_matchers tree \<longleftrightarrow>
     type_id tree = LabelMatchers
     \<or> (parent_type tree = Some LabelMatcher \<and> type_id tree = LabelName)"

definition in_label_value :: "Subtree \<Rightarrow> bool" where
  "in_label_value tree \<longleftrightarrow>
     parent_type tree = Some LabelMatcher \<and> type_id tree = StringLiteral"

text \<open>
  The condition of the fifth branch of \<open>promQL\<close>, the unfinished match operator, as the
  source writes it.
\<close>

definition in_unfinished_match_op :: "Subtree \<Rightarrow> bool" where
  "in_unfinished_match_op tree \<longleftrightarrow>
     type_id tree = LabelMatcher
     \<and> map_option type_id (firstChild tree) = Some LabelName
     \<and> map_option type_id (lastChild tree) = Some ErrorTerm
     \<and> Option.bind (lastChild tree) firstChild = None"



text \<open>
  The completion result that reaches the host: the one returned at once, or the one a
  returned promise resolves with; none for \<open>null\<close> and for a rejected promise.
\<close>

definition result_of :: "completion_outcome \<Rightarrow> CompletionResult option" where
  "result_of out =
     (case out of
        NoCompletion \<Rightarrow> None
      | Sync r \<Rightarrow> Some r
      | Deferred p \<Rightarrow> (case p of Resolved r \<Rightarrow> Some r | Rejected e \<Rightarrow> None))"

text \<open>A snippet candidate is one whose \<open>apply\<close> is a snippet function.\<close>

definition is_snippet :: "Completion \<Rightarrow> bool" where
  "is_snippet c =
     (case apply_field c of Some (ApplySnippet s) \<Rightarrow> True | Some (ApplyText s) \<Rightarrow> False
      | None \<Rightarrow> False)"

section \<open>Sample hosts for the examples\<close>

text \<open>
  A host state over a one-line document: \<open>resolve\<close> answers with the given node, the
  slices are substrings of the document, and the only line starts at offset \<open>0\<close> and has
  number \<open>1\<close>.
\<close>

definition one_line_state :: "string \<Rightarrow> Subtree \<Rightarrow> EditorState" where
  "one_line_state doc resolved =
     \<lparr>tree_resolve = (\<lambda>p side. resolved),
      sliceDoc = (\<lambda>from to. take (nat (to - from)) (drop (nat from) doc)),
      doc_lineAt = (\<lambda>p. \<lparr>line_from = 0, line_number = 1\<rparr>),
      doc_sliceString = (\<lambda>from. drop (nat from) doc)\<rparr>"

text \<open>A filter that keeps every candidate, and one that keeps those the text is a prefix of.\<close>

definition keep_all :: "Completion \<Rightarrow> string \<Rightarrow> Completion option" where
  "keep_all c text = Some c"

definition keep_prefixed :: "Completion \<Rightarrow> string \<Rightarrow> Completion option" where
  "keep_prefixed c text = (if take (length text) (label c) = text then Some c else None)"

definition sample_terms :: promql_terms where
  "sample_terms =
     \<lparr>matchOpTerms = [''='', ''!='', ''=~'', ''!~''],
      binOpTerms = [''+'', ''and'', ''unless''],
      binOpModifierTerms = [''on'', ''ignoring''],
      functionIdentifierTerms = [''rate'', ''abs''],
      aggregateOpTerms = [''sum'', ''avg''],
      aggregateOpModifierTerms = [''by'', ''without'']\<rparr>"

text \<open>
  The document \<open>sum by ()\<close> with the cursor at offset \<open>8\<close>, inside the empty list: the
  resolved node is the grouping-labels list at \<open>7..9\<close>.
\<close>

definition by_list_tree :: Subtree where
  "by_list_tree =
     Subtree (SyntaxNode GroupingLabels 7 9 [])
       [SyntaxNode (OtherTerm 1) 0 9 [SyntaxNode GroupingLabels 7 9 []]]"

text \<open>
  The document \<open>sum by (jo)\<close> with the cursor at offset \<open>10\<close>: the resolved node is the
  label name at \<open>8..10\<close>, a child of a grouping label.
\<close>

definition by_label_tree :: Subtree where
  "by_label_tree =
     Subtree (SyntaxNode LabelName 8 10 [])
       [SyntaxNode GroupingLabel 8 10 [SyntaxNode LabelName 8 10 []],
        SyntaxNode GroupingLabels 7 11
          [SyntaxNode GroupingLabel 8 10 [SyntaxNode LabelName 8 10 []]]]"

text \<open>
  The document \<open>up{job="p"}\<close> with the cursor at offset \<open>9\<close>, before the closing quote:
  the resolved node is the string literal at \<open>7..10\<close>, the last child of the matcher at
  \<open>3..10\<close>, inside the vector selector of the metric \<open>up\<close>.
\<close>

definition up_matcher :: SyntaxNode where
  "up_matcher =
     SyntaxNode LabelMatcher 3 10
       [SyntaxNode LabelName 3 6 [], SyntaxNode MatchOp 6 7 [],
        SyntaxNode StringLiteral 7 10 []]"

definition up_selector :: SyntaxNode where
  "up_selector =
     SyntaxNode VectorSelector 0 11
       [SyntaxNode MetricIdentifier 0 2 [SyntaxNode Identifier 0 2 []],
        SyntaxNode LabelMatchers 2 11 [up_matcher]]"

definition up_value_tree :: Subtree where
  "up_value_tree =
     Subtree (SyntaxNode StringLiteral 7 10 [])
       [up_matcher, SyntaxNode LabelMatchers 2 11 [up_matcher], up_selector]"

text \<open>
  The document \<open>foo{bar  !}\<close> with the cursor at offset \<open>8\<close>, between the label name at
  \<open>4..7\<close> and the stray \<open>!\<close> at \<open>9..10\<close>: the matcher at \<open>4..10\<close> contains the cursor and
  none of its children ends there, so it is the resolved node. Its first child is the
  label name and its last child is a childless error node.
\<close>

definition foo_matcher :: SyntaxNode where
  "foo_matcher =
     SyntaxNode LabelMatcher 4 10
       [SyntaxNode LabelName 4 7 [], SyntaxNode ErrorTerm 9 10 []]"

definition foo_matcher_tree :: Subtree where
  "foo_matcher_tree =
     Subtree foo_matcher
       [SyntaxNode LabelMatchers 3 11 [foo_matcher],
        SyntaxNode VectorSelector 0 11
          [SyntaxNode MetricIdentifier 0 3 [SyntaxNode Identifier 0 3 []],
           SyntaxNode LabelMatchers 3 11 [foo_matcher]]]"


text \<open>
  The document \<open>ra\<close> with the cursor at offset \<open>2\<close>: the resolved node is the identifier
  at \<open>0..2\<close>, under a metric identifier, a vector selector and the top expression.
\<close>

definition metric_tree :: Subtree where
  "metric_tree =
     Subtree (SyntaxNode Identifier 0 2 [])
       [SyntaxNode MetricIdentifier 0 2 [SyntaxNode Identifier 0 2 []],
        SyntaxNode VectorSelector 0 2 [],
        SyntaxNode (OtherTerm 1) 0 2 []]"

text \<open>A client that answers every request with the same names.\<close>

definition fixed_client :: "string list \<Rightarrow> PrometheusClient" where
  "fixed_client names =
     \<lparr>labelNames = (\<lambda>metricName. Resolved names),
      labelValues = (\<lambda>labelName metricName. Resolved names)\<rparr>"

text \<open>A client whose label values are the label name and the metric name it was asked for.\<close>

definition echo_client :: PrometheusClient where
  "echo_client =
     \<lparr>labelNames = (\<lambda>metricName. Resolved (case metricName of None \<Rightarrow> [] | Some m \<Rightarrow> [m])),
      labelValues =
        (\<lambda>labelName metricName.
           Resolved (labelName # (case metricName of None \<Rightarrow> [] | Some m \<Rightarrow> [m])))\<rparr>"


definition up_document :: string where
  \<open>up_document = ''up{job="p"}''\<close>

section \<open>Facts about the result assembly\<close>

lemma push_labels_eq:
  "push_labels c txt ty ls opts =
     opts @ List.map_filter (\<lambda>l. filter_field c (candidate ty l) txt) ls"
  by (induction ls arbitrary: opts) (simp_all add: List.map_filter_simps split: option.splits)

lemma push_lists_eq:
  "push_lists c txt data opts =
     opts @ concat (map (\<lambda>cl. List.map_filter
        (\<lambda>l. filter_field c (candidate (type_name cl) l) txt) (labels cl)) data)"
  by (induction data arbitrary: opts) (simp_all add: push_labels_eq)

lemma push_snippets_eq:
  "push_snippets c txt ss opts = opts @ List.map_filter (\<lambda>s. filter_field c s txt) ss"
  by (induction ss arbitrary: opts) (simp_all add: List.map_filter_simps split: option.splits)

lemma options_arrayToCompletionResult:
  "options (arrayToCompletionResult data f t c st inc) =
     concat (map (\<lambda>cl. List.map_filter
        (\<lambda>l. filter_field c (candidate (type_name cl) l) (sliceDoc st f t)) (labels cl)) data)
     @ (if inc then List.map_filter (\<lambda>s. filter_field c s (sliceDoc st f t)) parsedSnippets
        else [])"
  by (simp add: arrayToCompletionResult_def Let_def push_lists_eq push_snippets_eq)

lemma from_arrayToCompletionResult [simp]:
  "from_pos (arrayToCompletionResult data f t c st inc) = f"
  by (simp add: arrayToCompletionResult_def Let_def)

lemma to_arrayToCompletionResult [simp]:
  "to_pos (arrayToCompletionResult data f t c st inc) = t"
  by (simp add: arrayToCompletionResult_def Let_def)

lemma promise_then_Resolved [simp]: "promise_then (Resolved x) f = Resolved (f x)"
  by (simp add: promise_then_def)

lemma promise_then_Rejected [simp]: "promise_then (Rejected e) f = Rejected e"
  by (simp add: promise_then_def)

lemma set_map_filter:
  "set (List.map_filter f xs) = {y. \<exists>x\<in>set xs. f x = Some y}"
  by (induction xs) (auto simp: List.map_filter_simps split: option.splits)

lemmas accessor_defs =
  type_id_def start_def end_pos_def parent_def firstChild_def lastChild_def parent_type_def
  fourth_ancestor_def

lemmas branch_defs =
  in_metric_identifier_def in_grouping_labels_def in_label_matchers_def in_label_value_def

section \<open>No client: the label branches give no completion\<close>

text \<open>
  Claim C10. When no Prometheus client is configured, an invocation whose resolved node
  falls into the grouping-labels branch, the label-matcher-list branch or the
  label-matcher string-literal branch returns \<open>null\<close>, not a completion result with an
  empty candidate list. The node kinds of these branches exclude the identifier of the
  first branch, so the condition of the branch alone places the invocation in it.
\<close>

theorem no_client_label_branches_null:
  assumes "prometheusClient this = None"
    and "tree_resolve (state context) (pos context) (- 1) = tree"
    and "in_grouping_labels tree \<or> in_label_matchers tree \<or> in_label_value tree"
  shows "promQL T P this context = NoCompletion"
  using assms
  by (auto simp: promQL_def Let_def branch_defs of_nullable_def
      HybridComplete_labelNames_def autocompleteLabelNamesByMetric_def
      autocompleteLabelValue_def)

theorem no_client_label_branches_null_witness:
  "in_grouping_labels by_list_tree
   \<and> promQL sample_terms pathFinder \<lparr>prometheusClient = None\<rparr>
       \<lparr>state = one_line_state ''sum by ()'' by_list_tree, pos = 8,
        filter_field = keep_all\<rparr> = NoCompletion
   \<and> in_label_value up_value_tree
   \<and> promQL sample_terms pathFinder \<lparr>prometheusClient = None\<rparr>
       \<lparr>state = one_line_state up_document up_value_tree, pos = 9,
        filter_field = keep_all\<rparr> = NoCompletion"
proof -
  have a: "in_grouping_labels by_list_tree"
    by (simp add: branch_defs accessor_defs by_list_tree_def)
  have b: "in_label_value up_value_tree"
    by (simp add: branch_defs accessor_defs up_value_tree_def up_matcher_def)
  have ra: "tree_resolve (one_line_state doc t) p s = t" for doc t p s
    by (simp add: one_line_state_def)
  show ?thesis
    using a b
      no_client_label_branches_null [of "\<lparr>prometheusClient = None\<rparr>"
        "\<lparr>state = one_line_state ''sum by ()'' by_list_tree, pos = 8,
          filter_field = keep_all\<rparr>" by_list_tree sample_terms pathFinder]
      no_client_label_branches_null [of "\<lparr>prometheusClient = None\<rparr>"
        "\<lparr>state = one_line_state up_document up_value_tree, pos = 9,
          filter_field = keep_all\<rparr>" up_value_tree sample_terms pathFinder]
    by (simp add: ra)
qed

section \<open>The branches of the resolver\<close>

lemma promQL_cases:
  assumes "tree_resolve (state context) (pos context) (- 1) = tree"
  shows "promQL T P this context =
     (if in_metric_identifier tree then
        (case prometheusClient this of
           Some client \<Rightarrow>
             Deferred (promise_then (labelValues client ''__name__'' None)
               (\<lambda>metricNames. arrayToCompletionResult
                  (\<lparr>labels = metricNames, type_name = ''constant''\<rparr>
                     # nonMetricCompletions T tree)
                  (start tree) (pos context) context (state context) True))
         | None \<Rightarrow>
             Sync (arrayToCompletionResult (nonMetricCompletions T tree) (start tree)
                     (pos context) context (state context) True))
      else if in_grouping_labels tree then
        of_nullable (HybridComplete_labelNames this tree (pos context) context
                       (state context) None)
      else if in_label_matchers tree then
        of_nullable (HybridComplete_labelNames this tree (pos context) context
                       (state context)
                       (Some (getMetricNameInVectorSelector P tree (state context))))
      else if in_label_value tree then
        of_nullable (autocompleteLabelValue P this (the (parent tree)) tree (pos context)
                       context (state context))
      else if type_id tree = LabelMatcher
           \<and> map_option type_id (firstChild tree) = Some LabelName
           \<and> map_option type_id (lastChild tree) = Some ErrorTerm
           \<and> Option.bind (lastChild tree) firstChild = None then
        Sync (arrayToCompletionResult [autocompleteNode_matchOp T]
                (start (the (lastChild tree))) (pos context) context (state context) False)
      else if type_id tree = MatchOp \<or> parent_type tree = Some MatchOp then
        Sync (arrayToCompletionResult [autocompleteNode_matchOp T] (start tree)
                (pos context) context (state context) False)
      else if parent_type tree = Some BinaryExpr then
        Sync (arrayToCompletionResult [autocompleteNode_binOp T] (start tree)
                (pos context) context (state context) False)
      else if parent_type tree = Some FunctionIdentifier then
        Sync (arrayToCompletionResult [autocompleteNode_functionIdentifier T] (start tree)
                (pos context) context (state context) False)
      else if parent_type tree = Some AggregateOp then
        Sync (arrayToCompletionResult [autocompleteNode_aggregateOp T] (start tree)
                (pos context) context (state context) False)
      else if (type_id tree = Identifier \<and> parent_type tree = Some ErrorTerm)
           \<or> (type_id tree = ErrorTerm \<and> parent_type tree \<noteq> Some LabelMatchers) then
        Sync (arrayToCompletionResult
                [autocompleteNode_aggregateOpModifier T, autocompleteNode_binOp T]
                (start tree) (pos context) context (state context) False)
      else NoCompletion)"
  unfolding promQL_def Let_def assms branch_defs autocompleteLabelNamesByMetric_def
  by (rule refl)

lemma result_of_nullable:
  "result_of (of_nullable x) = Some r \<longleftrightarrow> x = Some (Resolved r)"
  by (auto simp: result_of_def of_nullable_def split: option.splits promise.splits)

section \<open>Label names: where the replacement starts\<close>

text \<open>
  Claim C4. With a metadata client configured, in the grouping-labels branch and in the
  label-matcher-list branch the returned \<open>from\<close> is the start of the list node plus one
  when the resolved node is the list node itself, and the start of the label-name token
  when the resolved node is such a token inside the list. The result is the one the
  returned promise resolves with once the client has answered with the label names; the
  names are asked for without a metric in the first branch and for the metric of the
  enclosing vector selector in the second.
\<close>

theorem label_list_replacement_start:
  assumes res: "tree_resolve (state context) (pos context) (- 1) = tree"
    and cl: "prometheusClient this = Some client"
    and br: "in_grouping_labels tree \<or> in_label_matchers tree"
    and fetched:
      "labelNames client
         (if in_grouping_labels tree then None
          else Some (getMetricNameInVectorSelector P tree (state context)))
       = Resolved names"
  shows "\<exists>r. promQL T P this context = Deferred (Resolved r)
           \<and> to_pos r = pos context
           \<and> (type_id tree = GroupingLabels \<or> type_id tree = LabelMatchers
                \<longrightarrow> from_pos r = start tree + 1)
           \<and> (type_id tree = LabelName \<longrightarrow> from_pos r = start tree)"
proof -
  have nm: "\<not> in_metric_identifier tree"
    using br by (auto simp: branch_defs)
  show ?thesis
  proof (cases "in_grouping_labels tree")
    case True
    with nm fetched cl show ?thesis
      by (auto simp: promQL_cases [OF res] of_nullable_def HybridComplete_labelNames_def)
  next
    case False
    with br have "in_label_matchers tree" by simp
    with False nm fetched cl show ?thesis
      by (auto simp: promQL_cases [OF res] of_nullable_def HybridComplete_labelNames_def)
  qed
qed

theorem label_list_replacement_start_witness:
  "start by_list_tree = 7
   \<and> map_option from_pos
       (result_of (promQL sample_terms pathFinder
          \<lparr>prometheusClient = Some (fixed_client [''job'', ''instance''])\<rparr>
          \<lparr>state = one_line_state ''sum by ()'' by_list_tree, pos = 8,
           filter_field = keep_all\<rparr>)) = Some 8
   \<and> start by_label_tree = 8
   \<and> map_option from_pos
       (result_of (promQL sample_terms pathFinder
          \<lparr>prometheusClient = Some (fixed_client [''job'', ''instance''])\<rparr>
          \<lparr>state = one_line_state ''sum by (jo)'' by_label_tree, pos = 10,
           filter_field = keep_prefixed\<rparr>)) = Some 8"
proof -
  let ?h = "\<lparr>prometheusClient = Some (fixed_client [''job'', ''instance''])\<rparr>"
  let ?c1 = "\<lparr>state = one_line_state ''sum by ()'' by_list_tree, pos = 8,
           filter_field = keep_all\<rparr>"
  let ?c2 = "\<lparr>state = one_line_state ''sum by (jo)'' by_label_tree, pos = 10,
           filter_field = keep_prefixed\<rparr>"
  have s1: "start by_list_tree = 7" and t1: "type_id by_list_tree = GroupingLabels"
    and b1: "in_grouping_labels by_list_tree"
    by (simp_all add: branch_defs accessor_defs by_list_tree_def)
  have s2: "start by_label_tree = 8" and t2: "type_id by_label_tree = LabelName"
    and b2: "in_grouping_labels by_label_tree"
    by (simp_all add: branch_defs accessor_defs by_label_tree_def)
  have "\<exists>r. promQL sample_terms pathFinder ?h ?c1 = Deferred (Resolved r)
      \<and> to_pos r = pos ?c1
      \<and> (type_id by_list_tree = GroupingLabels \<or> type_id by_list_tree = LabelMatchers
           \<longrightarrow> from_pos r = start by_list_tree + 1)
      \<and> (type_id by_list_tree = LabelName \<longrightarrow> from_pos r = start by_list_tree)"
    by (rule label_list_replacement_start
          [where client = "fixed_client [''job'', ''instance'']"
             and names = "[''job'', ''instance'']"])
      (simp_all add: one_line_state_def b1 fixed_client_def)
  then have r1: "map_option from_pos (result_of (promQL sample_terms pathFinder ?h ?c1))
      = Some 8"
    using s1 t1 by (auto simp: result_of_def)
  have "\<exists>r. promQL sample_terms pathFinder ?h ?c2 = Deferred (Resolved r)
      \<and> to_pos r = pos ?c2
      \<and> (type_id by_label_tree = GroupingLabels \<or> type_id by_label_tree = LabelMatchers
           \<longrightarrow> from_pos r = start by_label_tree + 1)
      \<and> (type_id by_label_tree = LabelName \<longrightarrow> from_pos r = start by_label_tree)"
    by (rule label_list_replacement_start
          [where client = "fixed_client [''job'', ''instance'']"
             and names = "[''job'', ''instance'']"])
      (simp_all add: one_line_state_def b2 fixed_client_def)
  then have r2: "map_option from_pos (result_of (promQL sample_terms pathFinder ?h ?c2))
      = Some 8"
    using s2 t2 by (auto simp: result_of_def)
  from s1 r1 s2 r2 show ?thesis by simp
qed

section \<open>Label values\<close>

text \<open>
  Claim C5. With a metadata client configured, in the label-matcher string-literal branch
  the resolver takes the label name from the first child of the matcher (the text of that
  child when it is a label name, the empty string otherwise), takes the metric name by
  \<open>walkBackward\<close> to the vector selector and \<open>walkThrough\<close> to the identifier of its
  metric identifier (the empty string when either finds nothing), asks the client for the
  label values of that label and metric, and the result has \<open>from\<close> one after the start
  of the string literal and \<open>to\<close> at the cursor; its candidates are the filtered values.
\<close>

theorem label_value_branch:
  assumes res: "tree_resolve (state context) (pos context) (- 1) = tree"
    and cl: "prometheusClient this = Some client"
    and br: "in_label_value tree"
  shows "\<exists>matcher labelName metricName.
      parent tree = Some matcher
    \<and> type_id matcher = LabelMatcher
    \<and> labelName =
        (case firstChild matcher of
           None \<Rightarrow> ''''
         | Some fc \<Rightarrow>
             if type_id fc = LabelName
             then sliceDoc (state context) (start fc) (end_pos fc) else '''')
    \<and> metricName =
        (case walkBackward P tree VectorSelector of
           None \<Rightarrow> ''''
         | Some selector \<Rightarrow>
             (case walkThrough P selector [MetricIdentifier, Identifier] of
                None \<Rightarrow> ''''
              | Some ident \<Rightarrow> sliceDoc (state context) (start ident) (end_pos ident)))
    \<and> promQL T P this context =
        Deferred (promise_then (labelValues client labelName (Some metricName))
          (\<lambda>vals. arrayToCompletionResult [\<lparr>labels = vals, type_name = ''text''\<rparr>]
             (start tree + 1) (pos context) context (state context) False))
    \<and> (\<forall>vals. labelValues client labelName (Some metricName) = Resolved vals \<longrightarrow>
          (\<exists>r. promQL T P this context = Deferred (Resolved r)
             \<and> from_pos r = start tree + 1
             \<and> to_pos r = pos context
             \<and> options r =
                 List.map_filter
                   (\<lambda>v. filter_field context (candidate ''text'' v)
                      (sliceDoc (state context) (start tree + 1) (pos context)))
                   vals))"
proof -
  from br obtain matcher where m: "parent tree = Some matcher"
    and mt: "type_id matcher = LabelMatcher"
    by (auto simp: in_label_value_def parent_type_def)
  have nm: "\<not> in_metric_identifier tree" "\<not> in_grouping_labels tree"
    "\<not> in_label_matchers tree"
    using br by (auto simp: branch_defs)
  have eq: "promQL T P this context =
      of_nullable (autocompleteLabelValue P this matcher tree (pos context) context
        (state context))"
    using nm br m by (simp add: promQL_cases [OF res])
  show ?thesis
    using m mt cl
    by (simp add: eq of_nullable_def autocompleteLabelValue_def Let_def
        getMetricNameInVectorSelector_def options_arrayToCompletionResult)
qed

theorem label_value_branch_witness:
  "map_option (\<lambda>r. (from_pos r, to_pos r, map label (options r)))
     (result_of (promQL sample_terms pathFinder \<lparr>prometheusClient = Some echo_client\<rparr>
        \<lparr>state = one_line_state up_document up_value_tree, pos = 9,
         filter_field = keep_all\<rparr>)) = Some (8, 9, [''job'', ''up''])"
proof -
  let ?h = "\<lparr>prometheusClient = Some echo_client\<rparr>"
  let ?s = "one_line_state up_document up_value_tree"
  let ?c = "\<lparr>state = ?s, pos = 9, filter_field = keep_all\<rparr>"
  let ?m = "Subtree up_matcher [SyntaxNode LabelMatchers 2 11 [up_matcher], up_selector]"
  have br: "in_label_value up_value_tree"
    by (simp add: branch_defs accessor_defs up_value_tree_def up_matcher_def)
  have rs: "tree_resolve (state ?c) (pos ?c) (- 1) = up_value_tree"
    by (simp add: one_line_state_def)
  have par: "parent up_value_tree = Some ?m"
    by (simp add: parent_def up_value_tree_def)
  have sl: "sliceDoc ?s 3 6 = ''job''" "sliceDoc ?s 0 2 = ''up''"
    by (simp_all add: one_line_state_def up_document_def)
  have lab: "(case firstChild ?m of
                None \<Rightarrow> ''''
              | Some fc \<Rightarrow>
                  if type_id fc = LabelName then sliceDoc ?s (start fc) (end_pos fc)
                  else '''') = ''job''"
    by (simp add: firstChild_def up_matcher_def type_id_def start_def end_pos_def sl)
  have sel: "walkBackward pathFinder up_value_tree VectorSelector
      = Some (Subtree up_selector [])"
    by (simp add: pathFinder_def walkBackward_spec_def up_value_tree_def up_matcher_def
        up_selector_def)
  have idn: "walkThrough pathFinder (Subtree up_selector []) [MetricIdentifier, Identifier]
      = Some (Subtree (SyntaxNode Identifier 0 2 [])
          [SyntaxNode MetricIdentifier 0 2 [SyntaxNode Identifier 0 2 []], up_selector])"
    by (simp add: pathFinder_def up_selector_def)
  have met: "(case walkBackward pathFinder up_value_tree VectorSelector of
                None \<Rightarrow> ''''
              | Some selector \<Rightarrow>
                  (case walkThrough pathFinder selector [MetricIdentifier, Identifier] of
                     None \<Rightarrow> ''''
                   | Some ident \<Rightarrow> sliceDoc ?s (start ident) (end_pos ident))) = ''up''"
    by (simp add: sel idn start_def end_pos_def sl)
  have st: "start up_value_tree = 7"
    by (simp add: start_def up_value_tree_def)
  have cl: "prometheusClient ?h = Some echo_client" by simp
  have sc: "state ?c = ?s" "pos ?c = 9" "filter_field ?c = keep_all" by simp_all
  note inst = label_value_branch [OF rs cl br, where P = pathFinder and T = sample_terms]
  from inst obtain matcher labelName metricName where pm: "parent up_value_tree = Some matcher"
    and l: "labelName =
        (case firstChild matcher of
           None \<Rightarrow> ''''
         | Some fc \<Rightarrow>
             if type_id fc = LabelName then sliceDoc (state ?c) (start fc) (end_pos fc)
             else '''')"
    and m: "metricName =
        (case walkBackward pathFinder up_value_tree VectorSelector of
           None \<Rightarrow> ''''
         | Some selector \<Rightarrow>
             (case walkThrough pathFinder selector [MetricIdentifier, Identifier] of
                None \<Rightarrow> ''''
              | Some ident \<Rightarrow> sliceDoc (state ?c) (start ident) (end_pos ident)))"
    and v: "\<forall>vals. labelValues echo_client labelName (Some metricName) = Resolved vals \<longrightarrow>
          (\<exists>r. promQL sample_terms pathFinder ?h ?c = Deferred (Resolved r)
             \<and> from_pos r = start up_value_tree + 1
             \<and> to_pos r = pos ?c
             \<and> options r =
                 List.map_filter
                   (\<lambda>v. filter_field ?c (candidate ''text'' v)
                      (sliceDoc (state ?c) (start up_value_tree + 1) (pos ?c)))
                   vals)"
    by blast
  from pm par have "matcher = ?m" by simp
  with l lab have l': "labelName = ''job''" by (simp only: sc)
  from m met have m': "metricName = ''up''" by (simp only: sc)
  have "labelValues echo_client labelName (Some metricName) = Resolved [''job'', ''up'']"
    by (simp add: echo_client_def l' m')
  with v obtain r where "promQL sample_terms pathFinder ?h ?c = Deferred (Resolved r)"
    and "from_pos r = 8" and "to_pos r = 9"
    and "options r = [candidate ''text'' ''job'', candidate ''text'' ''up'']"
    by (auto simp: st List.map_filter_simps keep_all_def)
  then show ?thesis
    by (simp add: result_of_def candidate_def)
qed

section \<open>The metric-name branch without a client\<close>

lemma offline_metric_result:
  assumes "tree_resolve (state context) (pos context) (- 1) = tree"
    and "prometheusClient this = None"
    and "in_metric_identifier tree"
  shows "promQL T P this context =
     Sync (arrayToCompletionResult (nonMetricCompletions T tree) (start tree) (pos context)
             context (state context) True)"
  using assms(2,3) by (simp add: promQL_cases [OF assms(1)])

lemma set_options_nonMetric:
  "set (options (arrayToCompletionResult (nonMetricCompletions T tree) f t c st True)) =
     {y. \<exists>x \<in> candidate ''function'' ` set (functionIdentifierTerms T)
               \<union> candidate ''keyword'' ` set (aggregateOpTerms T)
               \<union> candidate '''' ` set (binOpTerms T)
               \<union> (if map_option type_id (fourth_ancestor tree) = Some BinaryExpr
                  then candidate ''keyword'' ` set (binOpModifierTerms T) else {})
               \<union> set parsedSnippets.
            filter_field c x (sliceDoc st f t) = Some y}"
  by (auto simp: options_arrayToCompletionResult nonMetricCompletions_def Let_def
      set_map_filter autocompleteNode_functionIdentifier_def autocompleteNode_aggregateOp_def
      autocompleteNode_binOp_def autocompleteNode_binOpModifier_def)

text \<open>
  Claim C6, as the specification states it: without a metadata client, at an identifier
  under a metric identifier, the returned candidates include the function names, the
  aggregation operators and the binary operators. Every candidate passes through the
  host's filter first and is dropped when the filter answers \<open>null\<close>. In the document
  \<open>ra\<close> with the cursor at \<open>2\<close> and a filter that keeps the labels starting with the typed
  text, the function name \<open>abs\<close> is in the term list and the only returned candidate is
  \<open>rate\<close>.
\<close>

theorem offline_metric_candidates_counterexample:
  "in_metric_identifier metric_tree
   \<and> ''abs'' \<in> set (functionIdentifierTerms sample_terms)
   \<and> map_option (\<lambda>r. map label (options r))
       (result_of (promQL sample_terms pathFinder \<lparr>prometheusClient = None\<rparr>
          \<lparr>state = one_line_state ''ra'' metric_tree, pos = 2,
           filter_field = keep_prefixed\<rparr>)) = Some [''rate'']"
  by (simp add: promQL_def Let_def one_line_state_def metric_tree_def branch_defs
      accessor_defs result_of_def sample_terms_def arrayToCompletionResult_def
      nonMetricCompletions_def autocompleteNode_functionIdentifier_def
      autocompleteNode_aggregateOp_def autocompleteNode_binOp_def keep_prefixed_def
      candidate_def parsedSnippets_def snippets_def name_or_keyword_def)

text \<open>
  Claim C6, amended. Without a metadata client, at an identifier under a metric
  identifier, the result is returned at once, with no fetch. It includes the filter's
  answer for every function name, every aggregation operator and every binary operator
  that the filter keeps for the typed text, and it includes no metric names: every
  returned candidate is the filter's answer for a function name, an aggregation
  operator, a binary operator, a binary-operator modifier or a snippet.
\<close>

theorem offline_metric_candidates:
  assumes res: "tree_resolve (state context) (pos context) (- 1) = tree"
    and cl: "prometheusClient this = None"
    and br: "in_metric_identifier tree"
    and tx: "text = sliceDoc (state context) (start tree) (pos context)"
  shows "\<exists>r. promQL T P this context = Sync r
     \<and> (\<forall>l \<in> set (functionIdentifierTerms T). \<forall>c.
           filter_field context (candidate ''function'' l) text = Some c
             \<longrightarrow> c \<in> set (options r))
     \<and> (\<forall>l \<in> set (aggregateOpTerms T). \<forall>c.
           filter_field context (candidate ''keyword'' l) text = Some c
             \<longrightarrow> c \<in> set (options r))
     \<and> (\<forall>l \<in> set (binOpTerms T). \<forall>c.
           filter_field context (candidate '''' l) text = Some c \<longrightarrow> c \<in> set (options r))
     \<and> (\<forall>c \<in> set (options r).
           \<exists>c0 \<in> candidate ''function'' ` set (functionIdentifierTerms T)
                  \<union> candidate ''keyword'' ` set (aggregateOpTerms T)
                  \<union> candidate '''' ` set (binOpTerms T)
                  \<union> candidate ''keyword'' ` set (binOpModifierTerms T)
                  \<union> set parsedSnippets.
             filter_field context c0 text = Some c)"
  unfolding offline_metric_result [OF res cl br] tx
  by (intro exI conjI, rule refl; unfold set_options_nonMetric) (auto split: if_splits)

theorem offline_metric_candidates_witness:
  "map_option
     (\<lambda>r. candidate ''function'' ''abs'' \<in> set (options r)
         \<and> candidate ''keyword'' ''sum'' \<in> set (options r)
         \<and> candidate '''' ''unless'' \<in> set (options r))
     (result_of (promQL sample_terms pathFinder \<lparr>prometheusClient = None\<rparr>
        \<lparr>state = one_line_state ''ra'' metric_tree, pos = 2, filter_field = keep_all\<rparr>))
   = Some True"
proof -
  let ?h = "\<lparr>prometheusClient = None\<rparr>"
  let ?c = "\<lparr>state = one_line_state ''ra'' metric_tree, pos = 2, filter_field = keep_all\<rparr>"
  have rs: "tree_resolve (state ?c) (pos ?c) (- 1) = metric_tree"
    by (simp add: one_line_state_def)
  have cl: "prometheusClient ?h = None" by simp
  have br: "in_metric_identifier metric_tree"
    by (simp add: branch_defs accessor_defs metric_tree_def)
  from offline_metric_candidates [OF rs cl br refl, where T = sample_terms and P = pathFinder]
  obtain r where r: "promQL sample_terms pathFinder ?h ?c = Sync r"
    and f: "\<forall>l \<in> set (functionIdentifierTerms sample_terms). \<forall>c.
         filter_field ?c (candidate ''function'' l)
           (sliceDoc (state ?c) (start metric_tree) (pos ?c)) = Some c
           \<longrightarrow> c \<in> set (options r)"
    and a: "\<forall>l \<in> set (aggregateOpTerms sample_terms). \<forall>c.
         filter_field ?c (candidate ''keyword'' l)
           (sliceDoc (state ?c) (start metric_tree) (pos ?c)) = Some c
           \<longrightarrow> c \<in> set (options r)"
    and b: "\<forall>l \<in> set (binOpTerms sample_terms). \<forall>c.
         filter_field ?c (candidate '''' l)
           (sliceDoc (state ?c) (start metric_tree) (pos ?c)) = Some c
           \<longrightarrow> c \<in> set (options r)"
    by blast
  from f have "candidate ''function'' ''abs'' \<in> set (options r)"
    by (simp add: sample_terms_def keep_all_def)
  moreover from a have "candidate ''keyword'' ''sum'' \<in> set (options r)"
    by (simp add: sample_terms_def keep_all_def)
  moreover from b have "candidate '''' ''unless'' \<in> set (options r)"
    by (simp add: sample_terms_def keep_all_def)
  ultimately show ?thesis
    using r by (simp add: result_of_def)
qed

section \<open>Snippets stay in the metric-name branch\<close>

lemma filter_keeps_plain:
  assumes "\<forall>c t c'. filter_field context c t = Some c' \<longrightarrow> is_snippet c' \<longrightarrow> is_snippet c"
  shows "\<forall>c \<in> set (options (arrayToCompletionResult data f t context st False)).
           \<not> is_snippet c"
proof
  fix c assume "c \<in> set (options (arrayToCompletionResult data f t context st False))"
  then obtain ty l where "filter_field context (candidate ty l) (sliceDoc st f t) = Some c"
    by (auto simp: options_arrayToCompletionResult set_map_filter)
  with assms have "is_snippet c \<longrightarrow> is_snippet (candidate ty l)" by blast
  then show "\<not> is_snippet c"
    by (simp add: is_snippet_def candidate_def)
qed

lemma other_branches_result:
  assumes res: "tree_resolve (state context) (pos context) (- 1) = tree"
    and ret: "result_of (promQL T P this context) = Some r"
    and nb: "\<not> in_metric_identifier tree"
  shows "\<exists>data f. r = arrayToCompletionResult data f (pos context) context (state context)
           False"
proof -
  consider (grouping) "in_grouping_labels tree"
    | (matchers) "\<not> in_grouping_labels tree" "in_label_matchers tree"
    | (strlit) "\<not> in_grouping_labels tree" "\<not> in_label_matchers tree" "in_label_value tree"
    | (rest) "\<not> in_grouping_labels tree" "\<not> in_label_matchers tree"
        "\<not> in_label_value tree"
    by blast
  then show ?thesis
  proof cases
    case grouping
    with nb ret show ?thesis
      by (auto simp: promQL_cases [OF res] result_of_nullable HybridComplete_labelNames_def
          promise_then_def split: option.splits promise.splits)
  next
    case matchers
    with nb ret show ?thesis
      by (auto simp: promQL_cases [OF res] result_of_nullable HybridComplete_labelNames_def
          promise_then_def split: option.splits promise.splits)
  next
    case strlit
    with nb ret show ?thesis
      by (auto simp: promQL_cases [OF res] result_of_nullable autocompleteLabelValue_def
          Let_def promise_then_def split: option.splits promise.splits)
  next
    case rest
    with nb ret show ?thesis
      by (auto simp: promQL_cases [OF res] result_of_def split: if_splits)
  qed
qed

text \<open>
  Claim C8. Snippet candidates appear in a returned candidate list only when the
  invocation took the metric-name-identifier branch: the result of every other branch
  contains no snippet candidate. The host's filter is taken to answer with a form of the
  candidate it was given, so that it does not turn a plain term into a snippet.
\<close>

theorem snippets_only_in_metric_branch:
  assumes res: "tree_resolve (state context) (pos context) (- 1) = tree"
    and ret: "result_of (promQL T P this context) = Some r"
    and nb: "\<not> in_metric_identifier tree"
    and flt: "\<forall>c t c'. filter_field context c t = Some c' \<longrightarrow> is_snippet c'
                \<longrightarrow> is_snippet c"
  shows "\<forall>c \<in> set (options r). \<not> is_snippet c"
proof -
  from other_branches_result [OF res ret nb] obtain data f
    where "r = arrayToCompletionResult data f (pos context) context (state context) False"
    by blast
  with filter_keeps_plain [OF flt] show ?thesis by simp
qed

theorem snippets_only_in_metric_branch_witness:
  "map_option (\<lambda>r. (map label (options r), list_ex is_snippet (options r)))
     (result_of (promQL sample_terms pathFinder \<lparr>prometheusClient = None\<rparr>
        \<lparr>state = one_line_state ''foo{bar  !}'' foo_matcher_tree, pos = 8,
         filter_field = keep_all\<rparr>)) = Some ([''='', ''!='', ''=~'', ''!~''], False)"
proof -
  let ?h = "\<lparr>prometheusClient = None\<rparr>"
  let ?c = "\<lparr>state = one_line_state ''foo{bar  !}'' foo_matcher_tree, pos = 8,
         filter_field = keep_all\<rparr>"
  have rs: "tree_resolve (state ?c) (pos ?c) (- 1) = foo_matcher_tree"
    by (simp add: one_line_state_def)
  have nb: "\<not> in_metric_identifier foo_matcher_tree"
    by (simp add: branch_defs accessor_defs foo_matcher_tree_def foo_matcher_def)
  have flt: "\<forall>c t c'. filter_field ?c c t = Some c' \<longrightarrow> is_snippet c' \<longrightarrow> is_snippet c"
    by (simp add: keep_all_def)
  obtain r where r: "result_of (promQL sample_terms pathFinder ?h ?c) = Some r"
    and l: "map label (options r) = [''='', ''!='', ''=~'', ''!~'']"
    by (simp add: promQL_def Let_def one_line_state_def foo_matcher_tree_def foo_matcher_def
        accessor_defs result_of_def arrayToCompletionResult_def autocompleteNode_matchOp_def
        sample_terms_def keep_all_def candidate_def)
  from snippets_only_in_metric_branch [OF rs r nb flt]
  have "\<not> list_ex is_snippet (options r)"
    by (simp add: list_ex_iff)
  with r l show ?thesis by simp
qed

section \<open>Binary-operator modifiers\<close>






section \<open>The replacement span and the cursor\<close>

text \<open>
  In every returned completion result \<open>to\<close> is the cursor.
\<close>

lemma returned_to_is_cursor:
  assumes res: "tree_resolve (state context) (pos context) (- 1) = tree"
    and ret: "result_of (promQL T P this context) = Some r"
  shows "to_pos r = pos context"
proof (cases "in_metric_identifier tree")
  case True
  with ret show ?thesis
    by (auto simp: promQL_cases [OF res] result_of_def promise_then_def
        split: option.splits promise.splits)
next
  case False
  from other_branches_result [OF res ret False] show ?thesis by auto
qed

text \<open>
  In every branch but the unfinished-match-operator one, \<open>from\<close> is the start of the
  resolved node, or that start plus one for a list node and for a string literal. The
  node is resolved at the cursor, so it starts at or before the cursor, and a list node
  or string literal that is entered starts strictly before it: in these branches the
  span contains the cursor.
\<close>

lemma from_at_or_before_cursor:
  assumes res: "tree_resolve (state context) (pos context) (- 1) = tree"
    and ret: "result_of (promQL T P this context) = Some r"
    and nu: "\<not> in_unfinished_match_op tree"
    and st: "start tree \<le> pos context"
    and lst: "type_id tree \<in> {GroupingLabels, LabelMatchers, StringLiteral}
                \<longrightarrow> start tree < pos context"
  shows "from_pos r \<le> pos context"
proof -
  consider (metric) "in_metric_identifier tree"
    | (grouping) "\<not> in_metric_identifier tree" "in_grouping_labels tree"
    | (matchers) "\<not> in_metric_identifier tree" "\<not> in_grouping_labels tree"
        "in_label_matchers tree"
    | (strlit) "\<not> in_metric_identifier tree" "\<not> in_grouping_labels tree"
        "\<not> in_label_matchers tree" "in_label_value tree"
    | (rest) "\<not> in_metric_identifier tree" "\<not> in_grouping_labels tree"
        "\<not> in_label_matchers tree" "\<not> in_label_value tree"
    by blast
  then show ?thesis
  proof cases
    case metric
    with ret st show ?thesis
      by (auto simp: promQL_cases [OF res] result_of_def promise_then_def
          split: option.splits promise.splits)
  next
    case grouping
    with ret st lst show ?thesis
      by (auto simp: promQL_cases [OF res] result_of_nullable HybridComplete_labelNames_def
          promise_then_def split: option.splits promise.splits if_splits)
  next
    case matchers
    with ret st lst show ?thesis
      by (auto simp: promQL_cases [OF res] result_of_nullable HybridComplete_labelNames_def
          promise_then_def split: option.splits promise.splits if_splits)
  next
    case strlit
    with ret lst show ?thesis
      by (auto simp: promQL_cases [OF res] result_of_nullable autocompleteLabelValue_def
          Let_def promise_then_def in_label_value_def split: option.splits promise.splits)
  next
    case rest
    with ret st nu show ?thesis
      by (auto simp: promQL_cases [OF res] result_of_def in_unfinished_match_op_def
          split: if_splits)
  qed
qed

text \<open>
  Claim C3. In every returned completion result the replacement span contains the
  cursor, \<open>from \<le> pos \<le> to\<close>. The unfinished-match-operator branch breaks it: it takes
  \<open>from\<close> from the start of the last child of the resolved matcher and never compares
  it with the cursor. In the document \<open>foo{bar  !}\<close> with the cursor at \<open>8\<close>, between the
  label name and the stray \<open>!\<close>, the resolved node is the matcher, the branch is taken,
  and the returned span is inverted: \<open>from\<close> is \<open>9\<close>, the start of the error child, and
  \<open>to\<close> is \<open>8\<close>, the cursor.
\<close>

theorem unfinished_operator_span_inverted:
  "in_unfinished_match_op foo_matcher_tree
   \<and> map_option (\<lambda>r. (from_pos r, to_pos r))
       (result_of (promQL sample_terms pathFinder \<lparr>prometheusClient = None\<rparr>
          \<lparr>state = one_line_state ''foo{bar  !}'' foo_matcher_tree, pos = 8,
           filter_field = keep_all\<rparr>)) = Some (9, 8)"
  by (simp add: promQL_def Let_def one_line_state_def foo_matcher_tree_def foo_matcher_def
      accessor_defs result_of_def in_unfinished_match_op_def)

section \<open>A failed metadata fetch\<close>





section \<open>The language-server request and its answer\<close>

text \<open>
  Claim C2, as the specification states it: the \<open>positionChar\<close> of the request body is
  the cursor offset minus the start offset of the cursor's line, and \<open>0\<close> at the line
  start. The code subtracts one more whenever the difference is at least two: with the
  cursor at offset \<open>5\<close> of a line that starts at \<open>0\<close> the body carries \<open>4\<close>.
\<close>

theorem request_position_counterexample:
  "pos \<lparr>state = one_line_state ''sum(up)'' metric_tree, pos = 5, filter_field = keep_all\<rparr>
     - line_from (doc_lineAt (one_line_state ''sum(up)'' metric_tree) 5) = 5
   \<and> positionChar (request_body
        \<lparr>state = one_line_state ''sum(up)'' metric_tree, pos = 5, filter_field = keep_all\<rparr>)
      = 4"
  by (simp add: request_body_def Let_def one_line_state_def)

text \<open>
  Claim C2, amended. With \<open>d\<close> the cursor offset minus the start offset of the cursor's
  line, the \<open>positionChar\<close> of the request body is \<open>d - 1\<close> when the cursor is at least
  two characters into the line and \<open>d\<close> otherwise (\<open>0\<close> at the line start, \<open>1\<close> one
  character into the line), so it equals \<open>d\<close> exactly when \<open>d\<close> is at most \<open>1\<close>;
  \<open>positionLine\<close> is the editor's line number minus one.
\<close>

theorem request_position:
  assumes d: "d = pos context - line_from (doc_lineAt (state context) (pos context))"
  shows "positionChar (request_body context) = (if 2 \<le> d then d - 1 else d)
     \<and> (positionChar (request_body context) = d) = (d \<le> 1)
     \<and> positionLine (request_body context)
         = line_number (doc_lineAt (state context) (pos context)) - 1"
  unfolding d by (simp add: request_body_def Let_def)

theorem request_position_witness:
  "positionChar (request_body
      \<lparr>state = one_line_state ''sum(up)'' metric_tree, pos = 5, filter_field = keep_all\<rparr>) = 4
   \<and> positionChar (request_body
      \<lparr>state = one_line_state ''sum(up)'' metric_tree, pos = 1, filter_field = keep_all\<rparr>) = 1
   \<and> positionChar (request_body
      \<lparr>state = one_line_state ''sum(up)'' metric_tree, pos = 0, filter_field = keep_all\<rparr>) = 0
   \<and> positionLine (request_body
      \<lparr>state = one_line_state ''sum(up)'' metric_tree, pos = 5, filter_field = keep_all\<rparr>) = 0"
  using
    request_position [OF refl, of "\<lparr>state = one_line_state ''sum(up)'' metric_tree, pos = 5,
      filter_field = keep_all\<rparr>"]
    request_position [OF refl, of "\<lparr>state = one_line_state ''sum(up)'' metric_tree, pos = 1,
      filter_field = keep_all\<rparr>"]
    request_position [OF refl, of "\<lparr>state = one_line_state ''sum(up)'' metric_tree, pos = 0,
      filter_field = keep_all\<rparr>"]
  by (simp add: one_line_state_def)

text \<open>
  Claim C9. On a document whose line at the cursor starts at offset \<open>0\<close>, when the
  language server answers the completion request with the single item of label \<open>foo\<close>
  whose text edit starts at line \<open>0\<close>, character \<open>3\<close>, ends at character \<open>5\<close> and has the
  new text \<open>foobar\<close>, the resulting completion has \<open>from\<close> equal to \<open>3\<close>, \<open>to\<close> equal to
  the cursor offset, and exactly one candidate, labelled \<open>foobar\<close>.
\<close>

theorem text_edit_scenario:
  assumes "line_from (doc_lineAt (state context) (pos context)) = 0"
    and "post (url this @ ''/completion'') (request_body context) =
      Resolved (Items
        [\<lparr>res_label = ''foo'',
          textEdit = Some
            \<lparr>range = \<lparr>range_start = \<lparr>line = 0, character = 3\<rparr>,
                      range_end = \<lparr>line = 0, character = 5\<rparr>\<rparr>,
             newText = ''foobar''\<rparr>\<rparr>])"
  shows "autocomplete post this context =
     Resolved \<lparr>from_pos = 3, to_pos = pos context, options = [label_only ''foobar''],
               filterDownOn = None\<rparr>"
  using assms by (simp add: autocomplete_def Let_def autocompleteEndpoint_def)

theorem text_edit_scenario_witness:
  "autocomplete
     (\<lambda>u body. Resolved (Items
        [\<lparr>res_label = ''foo'',
          textEdit = Some
            \<lparr>range = \<lparr>range_start = \<lparr>line = 0, character = 3\<rparr>,
                      range_end = \<lparr>line = 0, character = 5\<rparr>\<rparr>,
             newText = ''foobar''\<rparr>\<rparr>]))
     \<lparr>url = ''http://localhost:8080/lsp''\<rparr>
     \<lparr>state = one_line_state ''sum(f'' metric_tree, pos = 5, filter_field = keep_all\<rparr>
   = Resolved \<lparr>from_pos = 3, to_pos = 5,
       options = [\<lparr>label = ''foobar'', original = None, apply_field = None,
                   type_field = None, score = None\<rparr>],
       filterDownOn = None\<rparr>"
  using text_edit_scenario
    [of "\<lparr>state = one_line_state ''sum(f'' metric_tree, pos = 5, filter_field = keep_all\<rparr>"
        "\<lambda>u body. Resolved (Items
        [\<lparr>res_label = ''foo'',
          textEdit = Some
            \<lparr>range = \<lparr>range_start = \<lparr>line = 0, character = 3\<rparr>,
                      range_end = \<lparr>line = 0, character = 5\<rparr>\<rparr>,
             newText = ''foobar''\<rparr>\<rparr>])"
        "\<lparr>url = ''http://localhost:8080/lsp''\<rparr>"]
  by (simp add: one_line_state_def label_only_def)

end
